theory Spec2Isabelle
  imports
    Complex_Main
    "HOL-Library.Char_ord"
    "HOL-Library.List_Lexorder"
    "HOL-Library.Product_Lexorder"
    "HOL-Library.Sublist"
begin

section \<open>certmon: monitoring TLS certificate expiration dates\<close>

text \<open>
  A shallow embedding of \<^verbatim>\<open>certmon.go\<close>: the prober \<^verbatim>\<open>FindExpirationTime\<close>, the
  constructor \<^verbatim>\<open>NewCertMon\<close> with the body of its per-domain goroutine, and the status
  page \<^verbatim>\<open>HandleStatus\<close>.

  Go strings are byte strings and compare bytewise; \<open>string\<close> with the orders of
  \<open>Char_ord\<close> and \<open>List_Lexorder\<close> is exactly that. The Go variables \<^verbatim>\<open>dom\<close>, \<^verbatim>\<open>exp\<close>
  and \<^verbatim>\<open>less\<close> are written \<open>domain\<close>, \<open>expt\<close> and \<open>lt\<close>, their names being constants
  of HOL.
\<close>

subsection \<open>The standard library's \<^verbatim>\<open>time.Time\<close>\<close>

text \<open>
  A \<^verbatim>\<open>time.Time\<close> is read as an instant in whole seconds, counted from
  January 1, year 1, 00:00:00 UTC as Go counts them internally, so that the zero value
  \<^verbatim>\<open>time.Time{}\<close> is \<open>0\<close>. The times of this program are either that zero value or the
  \<^verbatim>\<open>NotAfter\<close> of a parsed certificate, which crypto/x509 delivers in UTC without
  fractional seconds; on such values Go's \<^verbatim>\<open>!=\<close> is inequality of instants.
\<close>

type_synonym Time = int

definition zero_Time :: Time where
  "zero_Time = 0"

definition unixToInternal :: int where
  "unixToInternal = (1969 * 365 + 1969 div 4 - 1969 div 100 + 1969 div 400) * 86400"

definition Unix :: "Time \<Rightarrow> int" where
  "Unix t = t - unixToInternal"

definition Before :: "Time \<Rightarrow> Time \<Rightarrow> bool" where
  "Before t u = (t < u)"

definition isLeap :: "int \<Rightarrow> bool" where
  "isLeap year = (year mod 4 = 0 \<and> (year mod 100 \<noteq> 0 \<or> year mod 400 = 0))"

definition daysBefore :: "int list" where
  "daysBefore = [0, 31, 59, 90, 120, 151, 181, 212, 243, 273, 304, 334, 365]"

text \<open>Year and day of the year (from 0) of a day number counted from January 1, year 1.\<close>

definition absYear :: "int \<Rightarrow> int \<times> int" where
  "absYear d0 =
     (let n400 = d0 div 146097;
          d1 = d0 - 146097 * n400;
          n100 = d1 div 36524 - (d1 div 36524) div 4;
          d2 = d1 - 36524 * n100;
          n4 = d2 div 1461;
          d3 = d2 - 1461 * n4;
          n1 = d3 div 365 - (d3 div 365) div 4
      in (400 * n400 + 100 * n100 + 4 * n4 + n1 + 1, d3 - 365 * n1))"

text \<open>Month (from 1) and day of the month (from 1) of a day of the year.\<close>

definition monthDay :: "int \<Rightarrow> int \<Rightarrow> int \<times> int" where
  "monthDay year yday =
     (if isLeap year \<and> yday = 31 + 29 - 1 then (2, 29)
      else
        let day = (if isLeap year \<and> yday > 31 + 29 - 1 then yday - 1 else yday);
            month = day div 31;
            end_m = daysBefore ! nat (month + 1)
        in if day \<ge> end_m then (month + 2, day - end_m + 1)
           else (month + 1, day - daysBefore ! nat month + 1))"

fun digits :: "nat \<Rightarrow> string" where
  "digits n =
     (if n < 10 then [''0123456789'' ! n]
      else digits (n div 10) @ [''0123456789'' ! (n mod 10)])"

declare digits.simps [simp del]

definition appendInt :: "int \<Rightarrow> nat \<Rightarrow> string" where
  "appendInt x width =
     (let ds = digits (nat \<bar>x\<bar>)
      in (if x < 0 then ''-'' else []) @ replicate (width - length ds) (CHR ''0'') @ ds)"

text \<open>\<^verbatim>\<open>t.Format(time.RFC3339)\<close> of a time in UTC.\<close>

definition Format_RFC3339 :: "Time \<Rightarrow> string" where
  "Format_RFC3339 t =
     (let (year, yday) = absYear (t div 86400);
          (month, day) = monthDay year yday;
          secs = t mod 86400
      in appendInt year 4 @ ''-'' @ appendInt month 2 @ ''-'' @ appendInt day 2 @ ''T''
         @ appendInt (secs div 3600) 2 @ '':'' @ appendInt (secs mod 3600 div 60) 2 @ '':''
         @ appendInt (secs mod 60) 2 @ ''Z'')"

subsection \<open>The TLS library, as the prober sees it\<close>

text \<open>
  The handshake is outside the program: \<^verbatim>\<open>tls.Dial\<close> is a parameter that answers an
  address with an error or a connection, and a connection answers \<^verbatim>\<open>VerifyHostname\<close>
  and carries the peer's certificates. Error values are opaque.
\<close>

datatype error = Err string

record Certificate =
  NotAfter :: Time

record Conn =
  VerifyHostname :: "string \<Rightarrow> error option"
  PeerCertificates :: "Certificate list"

type_synonym network = "string \<Rightarrow> error + Conn"

subsection \<open>\<^verbatim>\<open>FindExpirationTime\<close>\<close>

text \<open>A run-time panic of the Go program: it ends the goroutine and with it the process.\<close>

datatype panic = IndexOutOfRange

text \<open>The \<^verbatim>\<open>for\<close> loop over \<^verbatim>\<open>PeerCertificates[1:]\<close>.\<close>

fun FindExpirationTime_loop :: "Time \<Rightarrow> Certificate list \<Rightarrow> Time" where
  "FindExpirationTime_loop expt [] = expt"
| "FindExpirationTime_loop expt (cert # certs) =
     FindExpirationTime_loop (if Before (NotAfter cert) expt then NotAfter cert else expt) certs"

text \<open>
  The result is Go's pair \<^verbatim>\<open>(time.Time, error)\<close>, with \<open>None\<close> for a \<^verbatim>\<open>nil\<close> error, or
  the panic of indexing an empty slice.
\<close>

definition FindExpirationTime :: "network \<Rightarrow> string \<Rightarrow> panic + (Time \<times> error option)" where
  "FindExpirationTime dial host =
     (case dial (host @ '':443'') of
        Inl err \<Rightarrow> Inr (zero_Time, Some err)
      | Inr conn \<Rightarrow>
          (case VerifyHostname conn host of
             Some err \<Rightarrow> Inr (zero_Time, Some err)
           | None \<Rightarrow>
               (case PeerCertificates conn of
                  [] \<Rightarrow> Inl IndexOutOfRange
                | cert0 # certs \<Rightarrow>
                    Inr (FindExpirationTime_loop (NotAfter cert0) certs, None))))"

subsection \<open>The \<^verbatim>\<open>CertMon\<close> struct and the effects of the program\<close>

text \<open>
  The table \<^verbatim>\<open>expirations\<close> is a Go map. The program as a whole is a \<open>world\<close>: the
  \<^verbatim>\<open>CertMon\<close>, the Prometheus gauge vector \<^verbatim>\<open>certExpirations\<close> (one value per label),
  and the effects in the order in which they happened. The field \<^verbatim>\<open>mutex\<close> shows in
  that order as \<open>Lock\<close> and \<open>Unlock\<close>; what is written to an \<^verbatim>\<open>http.ResponseWriter\<close> is
  a \<open>Write\<close>. The cancellation context \<^verbatim>\<open>ctx\<close> only ends goroutines and is left out.
\<close>

record CertMon =
  expirations :: "string \<rightharpoonup> Time"

datatype event =
    Lock
  | Unlock
  | GaugeSet string real
  | MapWrite string Time
  | Write string

record world =
  certmon :: CertMon
  certExpirations :: "string \<rightharpoonup> real"
  events :: "event list"

definition emit :: "event \<Rightarrow> world \<Rightarrow> world" where
  "emit e w = w\<lparr>events := events w @ [e]\<rparr>"

definition mutex_Lock :: "world \<Rightarrow> world" where
  "mutex_Lock w = emit Lock w"

definition mutex_Unlock :: "world \<Rightarrow> world" where
  "mutex_Unlock w = emit Unlock w"

text \<open>\<^verbatim>\<open>certExpirations.WithLabelValues(dom).Set(v)\<close>\<close>

definition WithLabelValues_Set :: "string \<Rightarrow> real \<Rightarrow> world \<Rightarrow> world" where
  "WithLabelValues_Set domain v w =
     emit (GaugeSet domain v) (w\<lparr>certExpirations := (certExpirations w)(domain \<mapsto> v)\<rparr>)"

text \<open>\<^verbatim>\<open>cm.expirations[dom] = t\<close>\<close>

definition expirations_assign :: "string \<Rightarrow> Time \<Rightarrow> world \<Rightarrow> world" where
  "expirations_assign domain t w =
     emit (MapWrite domain t)
       (w\<lparr>certmon := (certmon w)\<lparr>expirations := (expirations (certmon w))(domain \<mapsto> t)\<rparr>\<rparr>)"

text \<open>\<^verbatim>\<open>cm.expirations[dom]\<close> as a value: a key that is not in a Go map reads as the zero value.\<close>

definition expirations_index :: "CertMon \<Rightarrow> string \<Rightarrow> Time" where
  "expirations_index cm domain = (case expirations cm domain of None \<Rightarrow> zero_Time | Some t \<Rightarrow> t)"

text \<open>\<^verbatim>\<open>fmt.Fprintf(w, ...)\<close> with the text it writes.\<close>

definition Fprintf :: "string \<Rightarrow> world \<Rightarrow> world" where
  "Fprintf s w = emit (Write s) w"

subsection \<open>\<^verbatim>\<open>NewCertMon\<close> and the goroutine of a domain\<close>

text \<open>
  The loop over \<^verbatim>\<open>domains\<close> enters the zero time for the domain and starts its goroutine.
  The second component lists the argument \<^verbatim>\<open>dom\<close> of every goroutine started, in order.
\<close>

fun NewCertMon_loop :: "string list \<Rightarrow> CertMon \<times> string list \<Rightarrow> CertMon \<times> string list" where
  "NewCertMon_loop [] (cm, goroutines) = (cm, goroutines)"
| "NewCertMon_loop (domain # domains) (cm, goroutines) =
     NewCertMon_loop domains
       (cm\<lparr>expirations := (expirations cm)(domain \<mapsto> zero_Time)\<rparr>, goroutines @ [domain])"

definition NewCertMon :: "string list \<Rightarrow> CertMon \<times> string list" where
  "NewCertMon domains = NewCertMon_loop domains (\<lparr>expirations = Map.empty\<rparr>, [])"

text \<open>
  One round of the goroutine with \<^verbatim>\<open>dom\<close> = \<open>domain\<close> after its ticker fired (the sleep is not
  modelled; \<open>dial\<close> is the network as it answers in this round). The error of
  \<^verbatim>\<open>FindExpirationTime\<close> is bound to \<^verbatim>\<open>_\<close>.
\<close>

definition monitor_cycle :: "network \<Rightarrow> string \<Rightarrow> world \<Rightarrow> panic + world" where
  "monitor_cycle dial domain w =
     (case FindExpirationTime dial domain of
        Inl p \<Rightarrow> Inl p
      | Inr (expt, _) \<Rightarrow>
          (let w1 = WithLabelValues_Set domain (real_of_int (Unix expt)) w;
               w2 = mutex_Lock w1;
               w3 = expirations_assign domain expt w2;
               w4 = mutex_Unlock w3
           in Inr w4))"

text \<open>The goroutines that assign to the key \<open>k\<close> of the table: those started for \<open>k\<close>.\<close>

definition writers :: "string list \<Rightarrow> string \<Rightarrow> string list" where
  "writers goroutines k = filter (\<lambda>domain. domain = k) goroutines"

subsection \<open>\<^verbatim>\<open>HandleStatus\<close>\<close>

text \<open>The closure given to \<^verbatim>\<open>sort.Slice\<close>, on the two domains at the indices compared.\<close>

definition HandleStatus_less :: "CertMon \<Rightarrow> string \<Rightarrow> string \<Rightarrow> bool" where
  "HandleStatus_less cm domain_i domain_j =
     (let exp_i = expirations_index cm domain_i;
          exp_j = expirations_index cm domain_j
      in if exp_i \<noteq> exp_j then Before exp_i exp_j else domain_i < domain_j)"

text \<open>
  \<^verbatim>\<open>sort.Slice\<close> of the standard library sorts a slice by a \<^verbatim>\<open>less\<close> function and
  promises no stability; it is modelled by sorting by insertion, with \<open>lt\<close> for \<^verbatim>\<open>less\<close>.
\<close>

fun sort_insert :: "('a \<Rightarrow> 'a \<Rightarrow> bool) \<Rightarrow> 'a \<Rightarrow> 'a list \<Rightarrow> 'a list" where
  "sort_insert lt x [] = [x]"
| "sort_insert lt x (y # ys) =
     (if lt y x then y # sort_insert lt x ys else x # y # ys)"

definition sort_Slice :: "('a \<Rightarrow> 'a \<Rightarrow> bool) \<Rightarrow> 'a list \<Rightarrow> 'a list" where
  "sort_Slice lt xs = foldr (sort_insert lt) xs []"

text \<open>
  The slice \<^verbatim>\<open>domains\<close> after sorting. \<open>range_keys\<close> is the order in which
  \<^verbatim>\<open>range cm.expirations\<close> yields the keys, which Go leaves open; it yields every key once.
\<close>

definition HandleStatus_domains :: "CertMon \<Rightarrow> string list \<Rightarrow> string list" where
  "HandleStatus_domains cm range_keys = sort_Slice (HandleStatus_less cm) range_keys"

definition status_header :: string where
  "status_header = ''<html>
<head>
<link href='https://tools-static.wmflabs.org/fontcdn/css?family=Roboto+Slab:400,700' rel='stylesheet' type='text/css'/>
<style>
* {
  font-family: 'Roboto Slab', serif;
}
h1 {
  color: #0066ff;
  margin-left: 1em;
  margin-top: 1em;
}
p {
  margin-left: 5em;
}
th {
  text-align: left;
}
</style>
</head>
<body><h1>CertMon: Monitoring TLS Certificates</h1>
<p>Every 30 seconds, this job checks the expiration dates of TLS certificates.
It exposes these dates as <a href=\"/metrics\">metrics</a> for monitoring with <a href=\"https://prometheus.io/\">Prometheus</a>.</p>

<p>Source code: <a href=\"https://github.com/brawer/certmon\">https://github.com/brawer/certmon</a></p>

<p><table>
<tr><th>Domain</th><th>Certificate expires</th></tr>
''"

definition status_row :: "string \<Rightarrow> Time \<Rightarrow> string" where
  "status_row domain expt =
     ''<tr><td>'' @ domain @ ''</td><td>'' @ Format_RFC3339 expt @ ''</td></tr>\<newline>''"

definition status_footer :: string where
  "status_footer = ''</table></p></body></html>\<newline>''"

text \<open>The loop that writes one row for each of \<^verbatim>\<open>domains\<close>, reading the table as it goes.\<close>

fun HandleStatus_rows :: "string list \<Rightarrow> world \<Rightarrow> world" where
  "HandleStatus_rows [] w = w"
| "HandleStatus_rows (domain # domains) w =
     HandleStatus_rows domains
       (Fprintf (status_row domain (expirations_index (certmon w) domain)) w)"

text \<open>The deferred \<^verbatim>\<open>Unlock\<close> runs when the function returns.\<close>

definition HandleStatus :: "string list \<Rightarrow> world \<Rightarrow> world" where
  "HandleStatus range_keys w =
     (let w1 = mutex_Lock w;
          domains = HandleStatus_domains (certmon w1) range_keys;
          w2 = Fprintf status_header w1;
          w3 = HandleStatus_rows domains w2;
          w4 = Fprintf status_footer w3
      in mutex_Unlock w4)"

text \<open>For every \<open>Write\<close> of a trace, whether the mutex was held when it happened.\<close>

fun held_at_writes :: "bool \<Rightarrow> event list \<Rightarrow> bool list" where
  "held_at_writes held [] = []"
| "held_at_writes held (Lock # es) = held_at_writes True es"
| "held_at_writes held (Unlock # es) = held_at_writes False es"
| "held_at_writes held (Write s # es) = held # held_at_writes held es"
| "held_at_writes held (GaugeSet d v # es) = held_at_writes held es"
| "held_at_writes held (MapWrite d t # es) = held_at_writes held es"

text \<open>The text that the \<open>Write\<close>s of a trace put on the page.\<close>

fun written :: "event list \<Rightarrow> string" where
  "written [] = []"
| "written (Write s # es) = s @ written es"
| "written (e # es) = written es"

subsection \<open>The states the program reaches\<close>

text \<open>
  From the state that \<^verbatim>\<open>NewCertMon\<close> leaves, a goroutine it started completes a round
  or a status page is served, in any order and against any network.
\<close>

inductive reachable :: "string list \<Rightarrow> world \<Rightarrow> bool" for domains :: "string list" where
  start: "reachable domains
            \<lparr>certmon = fst (NewCertMon domains), certExpirations = Map.empty, events = []\<rparr>"
| cycle: "reachable domains w \<Longrightarrow> domain \<in> set (snd (NewCertMon domains)) \<Longrightarrow>
            monitor_cycle dial domain w = Inr w' \<Longrightarrow> reachable domains w'"
| status: "reachable domains w \<Longrightarrow> distinct range_keys \<Longrightarrow>
            set range_keys = dom (expirations (certmon w)) \<Longrightarrow>
            reachable domains (HandleStatus range_keys w)"

subsection \<open>Networks and a table to run the program on\<close>

text \<open>
  A network that refuses the connection, one that presents a given chain for the name
  asked for, and one whose certificate is for another name. The times are
  2030-01-01, 2025-06-01 and 2035-01-01, each at 00:00:00 UTC.
\<close>

definition dial_refused :: network where
  "dial_refused addr = Inl (Err ''connection refused'')"

definition dial_presenting :: "Certificate list \<Rightarrow> network" where
  "dial_presenting chain addr =
     Inr \<lparr>VerifyHostname = (\<lambda>host. None), PeerCertificates = chain\<rparr>"

definition dial_mismatch :: "Certificate list \<Rightarrow> network" where
  "dial_mismatch chain addr =
     Inr \<lparr>VerifyHostname = (\<lambda>host. Some (Err ''certificate is valid for another name'')),
          PeerCertificates = chain\<rparr>"

definition three_certificates :: "Certificate list" where
  "three_certificates =
     [\<lparr>NotAfter = 64029052800\<rparr>, \<lparr>NotAfter = 63884332800\<rparr>, \<lparr>NotAfter = 64186819200\<rparr>]"

definition example_world :: world where
  "example_world =
     \<lparr>certmon = \<lparr>expirations = [''b.example'' \<mapsto> 64029052800,
                                  ''a.example'' \<mapsto> 63884332800,
                                  ''c.example'' \<mapsto> zero_Time]\<rparr>,
      certExpirations = Map.empty,
      events = []\<rparr>"

section \<open>Properties\<close>

subsection \<open>The prober\<close>

lemma FindExpirationTime_loop_Min:
  "FindExpirationTime_loop expt certs = Min (insert expt (NotAfter ` set certs))"
proof (induction certs arbitrary: expt)
  case Nil
  show ?case by simp
next
  case (Cons cert certs)
  have "Min (insert expt (NotAfter ` set (cert # certs)))
        = Min (insert (min (NotAfter cert) expt) (NotAfter ` set certs))"
    by (cases "certs = []") (simp_all add: min.assoc min.commute min.left_commute)
  moreover have "(if Before (NotAfter cert) expt then NotAfter cert else expt)
        = min (NotAfter cert) expt"
    by (simp add: Before_def min_def)
  ultimately show ?case using Cons.IH by simp
qed

lemma FindExpirationTime_error_zero:
  "FindExpirationTime dial host = Inr (t, Some e) \<Longrightarrow> t = zero_Time"
  by (auto simp: FindExpirationTime_def split: sum.splits option.splits list.splits)

text \<open>
  C2: when the connection is made, the host name verifies and the peer presents at
  least one certificate, \<^verbatim>\<open>FindExpirationTime\<close> returns the least \<^verbatim>\<open>NotAfter\<close> of all
  certificates of the chain, not only the first one's, and a \<^verbatim>\<open>nil\<close> error.
\<close>

theorem FindExpirationTime_chain_minimum:
  assumes "dial (host @ '':443'') = Inr conn"
    and "VerifyHostname conn host = None"
    and "PeerCertificates conn \<noteq> []"
  shows "FindExpirationTime dial host
         = Inr (Min (NotAfter ` set (PeerCertificates conn)), None)"
proof -
  from assms(3) obtain cert0 certs where chain: "PeerCertificates conn = cert0 # certs"
    by (cases "PeerCertificates conn") auto
  have "FindExpirationTime dial host
        = Inr (FindExpirationTime_loop (NotAfter cert0) certs, None)"
    using assms(1,2) chain by (simp add: FindExpirationTime_def)
  then show ?thesis
    by (simp add: chain FindExpirationTime_loop_Min)
qed

text \<open>A chain whose first certificate expires in 2030 and whose second in 2025.\<close>

theorem FindExpirationTime_chain_minimum_witness:
  "dial_presenting three_certificates (''a.example'' @ '':443'')
     = Inr \<lparr>VerifyHostname = (\<lambda>host. None), PeerCertificates = three_certificates\<rparr>
   \<and> NotAfter (hd three_certificates) = 64029052800
   \<and> FindExpirationTime (dial_presenting three_certificates) ''a.example''
       = Inr (63884332800, None)"
  using FindExpirationTime_chain_minimum
    [of "dial_presenting three_certificates" "''a.example''"
        "\<lparr>VerifyHostname = (\<lambda>host. None), PeerCertificates = three_certificates\<rparr>"]
  by (simp add: dial_presenting_def three_certificates_def)






subsection \<open>The goroutine of a domain\<close>

lemma unixToInternal_value: "unixToInternal = 62135596800"
  by (simp add: unixToInternal_def)

lemma monitor_cycle_result:
  assumes "FindExpirationTime dial domain = Inr (expt, err)"
  shows "monitor_cycle dial domain w =
           Inr \<lparr>certmon = (certmon w)\<lparr>expirations := (expirations (certmon w))(domain \<mapsto> expt)\<rparr>,
                certExpirations = (certExpirations w)(domain \<mapsto> real_of_int (Unix expt)),
                events = events w @ [GaugeSet domain (real_of_int (Unix expt)), Lock,
                                     MapWrite domain expt, Unlock]\<rparr>"
  using assms
  by (simp add: monitor_cycle_def WithLabelValues_Set_def mutex_Lock_def mutex_Unlock_def
      expirations_assign_def emit_def)

lemma monitor_cycle_cases:
  assumes "monitor_cycle dial domain w = Inr w'"
  obtains expt err where "FindExpirationTime dial domain = Inr (expt, err)"
  using assms by (auto simp: monitor_cycle_def split: sum.splits prod.splits)

text \<open>
  C1 as stated fails: the table has 2025-06-01 for a.example, the connection is refused,
  and after the round the entry is the zero time.
\<close>

theorem monitor_cycle_failed_probe_counterexample:
  "FindExpirationTime dial_refused ''a.example''
     = Inr (zero_Time, Some (Err ''connection refused''))
   \<and> expirations (certmon example_world) ''a.example'' = Some 63884332800
   \<and> (\<exists>w'. monitor_cycle dial_refused ''a.example'' example_world = Inr w'
         \<and> expirations (certmon w') ''a.example'' = Some zero_Time
         \<and> expirations (certmon w') ''a.example''
             \<noteq> expirations (certmon example_world) ''a.example'')"
  by (simp add: monitor_cycle_def FindExpirationTime_def dial_refused_def example_world_def
      WithLabelValues_Set_def mutex_Lock_def mutex_Unlock_def expirations_assign_def emit_def
      zero_Time_def)

text \<open>
  C1, amended: in a round in which \<^verbatim>\<open>FindExpirationTime\<close> returns an error, the error is
  discarded and the entry of the domain is overwritten with the zero time, whatever it
  was before; the entries of all other domains stay as they were.
\<close>

theorem monitor_cycle_failed_probe_writes_zero:
  assumes "FindExpirationTime dial domain = Inr (expt, Some err)"
  shows "\<exists>w'. monitor_cycle dial domain w = Inr w'
           \<and> expirations (certmon w') domain = Some zero_Time
           \<and> (\<forall>other. other \<noteq> domain \<longrightarrow>
                 expirations (certmon w') other = expirations (certmon w) other)"
proof -
  have "expt = zero_Time"
    using assms by (rule FindExpirationTime_error_zero)
  then show ?thesis
    using monitor_cycle_result [OF assms, of w] by simp
qed

theorem monitor_cycle_failed_probe_writes_zero_witness:
  "FindExpirationTime (dial_mismatch three_certificates) ''b.example''
     = Inr (zero_Time, Some (Err ''certificate is valid for another name''))
   \<and> (\<exists>w'. monitor_cycle (dial_mismatch three_certificates) ''b.example'' example_world = Inr w'
         \<and> expirations (certmon w') ''b.example'' = Some zero_Time
         \<and> expirations (certmon w') ''a.example'' = Some 63884332800)"
proof -
  have probe: "FindExpirationTime (dial_mismatch three_certificates) ''b.example''
     = Inr (zero_Time, Some (Err ''certificate is valid for another name''))"
    by (simp add: FindExpirationTime_def dial_mismatch_def)
  have "expirations (certmon example_world) ''a.example'' = Some 63884332800"
    by (simp add: example_world_def)
  then show ?thesis
    using probe monitor_cycle_failed_probe_writes_zero [OF probe, of example_world]
    by auto
qed

text \<open>
  C10: in every round that \<^verbatim>\<open>FindExpirationTime\<close> returns from, with or without an error,
  the gauge of the domain is set to the Unix seconds of the time returned, and that
  happens before the mutex is taken and the table is assigned. When an error is
  returned the value set is that of the zero time, -62135596800.
\<close>

theorem monitor_cycle_gauge_unconditional:
  assumes "FindExpirationTime dial domain = Inr (expt, err)"
  shows "\<exists>w'. monitor_cycle dial domain w = Inr w'
           \<and> certExpirations w' domain = Some (real_of_int (Unix expt))
           \<and> events w' = events w @ [GaugeSet domain (real_of_int (Unix expt)), Lock,
                                      MapWrite domain expt, Unlock]
           \<and> (err \<noteq> None \<longrightarrow> real_of_int (Unix expt) = - 62135596800)"
proof -
  have "err \<noteq> None \<longrightarrow> expt = zero_Time"
    using assms FindExpirationTime_error_zero by (cases err) auto
  then have "err \<noteq> None \<longrightarrow> real_of_int (Unix expt) = - 62135596800"
    by (simp add: Unix_def zero_Time_def unixToInternal_value)
  then show ?thesis
    using monitor_cycle_result [OF assms, of w] by simp
qed

theorem monitor_cycle_gauge_unconditional_witness:
  "FindExpirationTime dial_refused ''c.example''
     = Inr (zero_Time, Some (Err ''connection refused''))
   \<and> (\<exists>w'. monitor_cycle dial_refused ''c.example'' example_world = Inr w'
         \<and> certExpirations w' ''c.example'' = Some (- 62135596800)
         \<and> events w' = [GaugeSet ''c.example'' (- 62135596800), Lock,
                         MapWrite ''c.example'' zero_Time, Unlock])"
proof -
  have probe: "FindExpirationTime dial_refused ''c.example''
     = Inr (zero_Time, Some (Err ''connection refused''))"
    by (simp add: FindExpirationTime_def dial_refused_def)
  have "events example_world = []"
    by (simp add: example_world_def)
  then show ?thesis
    using probe monitor_cycle_gauge_unconditional [OF probe, of example_world]
    by auto
qed

subsection \<open>The constructor and the table\<close>

lemma NewCertMon_loop_result:
  "NewCertMon_loop domains (cm, goroutines) =
     (cm\<lparr>expirations := (\<lambda>d. if d \<in> set domains then Some zero_Time else expirations cm d)\<rparr>,
      goroutines @ domains)"
proof (induction domains arbitrary: cm goroutines)
  case Nil
  show ?case by simp
next
  case (Cons domain domains)
  have "(\<lambda>d. if d \<in> set domains then Some zero_Time
              else ((expirations cm)(domain \<mapsto> zero_Time)) d)
        = (\<lambda>d. if d \<in> set (domain # domains) then Some zero_Time else expirations cm d)"
    by auto
  then show ?case
    by (simp add: Cons.IH cong: if_cong)
qed

lemma NewCertMon_result:
  "NewCertMon domains =
     (\<lparr>expirations = (\<lambda>d. if d \<in> set domains then Some zero_Time else None)\<rparr>, domains)"
  by (simp add: NewCertMon_def NewCertMon_loop_result cong: if_cong)

lemma HandleStatus_rows_certmon [simp]:
  "certmon (HandleStatus_rows domains w) = certmon w"
  by (induction domains arbitrary: w) (simp_all add: Fprintf_def emit_def)

lemma HandleStatus_rows_certExpirations [simp]:
  "certExpirations (HandleStatus_rows domains w) = certExpirations w"
  by (induction domains arbitrary: w) (simp_all add: Fprintf_def emit_def)

lemma HandleStatus_rows_events:
  "events (HandleStatus_rows domains w) =
     events w @ map (\<lambda>d. Write (status_row d (expirations_index (certmon w) d))) domains"
  by (induction domains arbitrary: w) (simp_all add: Fprintf_def emit_def)

lemma HandleStatus_certmon [simp]: "certmon (HandleStatus range_keys w) = certmon w"
  by (simp add: HandleStatus_def Let_def mutex_Lock_def mutex_Unlock_def Fprintf_def emit_def)

lemma HandleStatus_certExpirations [simp]:
  "certExpirations (HandleStatus range_keys w) = certExpirations w"
  by (simp add: HandleStatus_def Let_def mutex_Lock_def mutex_Unlock_def Fprintf_def emit_def)

lemma HandleStatus_events:
  "events (HandleStatus range_keys w) =
     events w @ Lock # Write status_header
       # map (\<lambda>d. Write (status_row d (expirations_index (certmon w) d)))
           (HandleStatus_domains (certmon w) range_keys)
       @ [Write status_footer, Unlock]"
  by (simp add: HandleStatus_def Let_def mutex_Lock_def mutex_Unlock_def Fprintf_def emit_def
      HandleStatus_rows_events)

lemma reachable_keys:
  "reachable domains w \<Longrightarrow> dom (expirations (certmon w)) = set domains"
proof (induction rule: reachable.induct)
  case start
  show ?case by (auto simp: NewCertMon_result split: if_splits)
next
  case (cycle w domain dial w')
  from cycle.hyps(3) obtain expt err where "FindExpirationTime dial domain = Inr (expt, err)"
    by (rule monitor_cycle_cases)
  from monitor_cycle_result [OF this, of w] cycle.hyps(3)
  have "dom (expirations (certmon w')) = insert domain (dom (expirations (certmon w)))"
    by auto
  moreover have "domain \<in> set domains"
    using cycle.hyps(2) by (simp add: NewCertMon_result)
  ultimately show ?case using cycle.IH by auto
next
  case (status w range_keys)
  then show ?case by simp
qed

lemma distinct_count_list_one:
  "distinct xs \<Longrightarrow> x \<in> set xs \<Longrightarrow> count_list xs x = 1"
  by (induction xs) auto

text \<open>
  C8 as stated fails for a list that names a domain twice: two goroutines are started
  for it, and both assign to its key.
\<close>

theorem NewCertMon_one_writer_counterexample:
  "\<not> (\<forall>domains k. k \<in> set domains \<longrightarrow> length (writers (snd (NewCertMon domains)) k) = 1)"
proof
  assume "\<forall>domains k. k \<in> set domains \<longrightarrow> length (writers (snd (NewCertMon domains)) k) = 1"
  then have "length (writers (snd (NewCertMon [''a.example'', ''a.example''])) ''a.example'') = 1"
    by simp
  then show False
    by (simp add: NewCertMon_def writers_def)
qed

text \<open>
  C8, amended: for every list of configured domains, \<^verbatim>\<open>NewCertMon\<close> leaves a table whose
  keys are the configured domains, each with the zero time, and has started one goroutine
  for every element of the list. In every state the program reaches the keys are still
  exactly the configured domains, so no entry is ever deleted or added. A round of the
  goroutine of a domain assigns to the key of that domain and to no other. The goroutines
  that write a key are as many as the domain occurs in the list: exactly one when the
  list names no domain twice.
\<close>

theorem NewCertMon_table_invariant:
  "expirations (fst (NewCertMon domains))
     = (\<lambda>d. if d \<in> set domains then Some zero_Time else None)
   \<and> snd (NewCertMon domains) = domains
   \<and> (\<forall>w. reachable domains w \<longrightarrow> dom (expirations (certmon w)) = set domains)
   \<and> (\<forall>dial domain w w' k. monitor_cycle dial domain w = Inr w' \<longrightarrow>
         expirations (certmon w') domain \<noteq> None
         \<and> (k \<noteq> domain \<longrightarrow> expirations (certmon w') k = expirations (certmon w) k))
   \<and> (\<forall>k. length (writers (snd (NewCertMon domains)) k) = count_list domains k)
   \<and> (distinct domains \<longrightarrow>
         (\<forall>k \<in> set domains. length (writers (snd (NewCertMon domains)) k) = 1))"
proof (intro conjI allI impI ballI)
  show "expirations (fst (NewCertMon domains))
          = (\<lambda>d. if d \<in> set domains then Some zero_Time else None)"
    by (simp add: NewCertMon_result)
  show "snd (NewCertMon domains) = domains"
    by (simp add: NewCertMon_result)
  show "dom (expirations (certmon w)) = set domains" if "reachable domains w" for w
    using that by (rule reachable_keys)
  show "expirations (certmon w') domain \<noteq> None"
    if "monitor_cycle dial domain w = Inr w'" for dial domain w w'
  proof -
    from that obtain expt err where "FindExpirationTime dial domain = Inr (expt, err)"
      by (rule monitor_cycle_cases)
    from monitor_cycle_result [OF this, of w] that show ?thesis by auto
  qed
  show "expirations (certmon w') k = expirations (certmon w) k"
    if "monitor_cycle dial domain w = Inr w'" and "k \<noteq> domain" for dial domain w w' k
  proof -
    from that(1) obtain expt err where "FindExpirationTime dial domain = Inr (expt, err)"
      by (rule monitor_cycle_cases)
    from monitor_cycle_result [OF this, of w] that show ?thesis by auto
  qed
  show count: "length (writers (snd (NewCertMon domains)) k) = count_list domains k" for k
  proof -
    have "(\<lambda>domain. domain = k) = ((=) k)"
      by auto
    then show ?thesis
      by (simp add: NewCertMon_result writers_def count_list_eq_length_filter)
  qed
  show "length (writers (snd (NewCertMon domains)) k) = 1"
    if "distinct domains" and "k \<in> set domains" for k
    using that count [of k] by (simp add: distinct_count_list_one)
qed

theorem NewCertMon_table_invariant_witness:
  "snd (NewCertMon [''b.example'', ''a.example'', ''c.example''])
     = [''b.example'', ''a.example'', ''c.example'']
   \<and> expirations (fst (NewCertMon [''b.example'', ''a.example'', ''c.example''])) ''a.example''
       = Some zero_Time
   \<and> dom (expirations (certmon
        \<lparr>certmon = fst (NewCertMon [''b.example'', ''a.example'', ''c.example'']),
         certExpirations = Map.empty, events = []\<rparr>))
       = set [''b.example'', ''a.example'', ''c.example'']
   \<and> length (writers (snd (NewCertMon [''b.example'', ''a.example'', ''c.example'']))
        ''a.example'') = 1"
proof -
  let ?ds = "[''b.example'', ''a.example'', ''c.example'']"
  note inv = NewCertMon_table_invariant [of ?ds]
  have goroutines: "snd (NewCertMon ?ds) = ?ds"
    using inv by (elim conjE)
  have "expirations (fst (NewCertMon ?ds))
          = (\<lambda>d. if d \<in> set ?ds then Some zero_Time else None)"
    using inv by (elim conjE)
  then have entry: "expirations (fst (NewCertMon ?ds)) ''a.example'' = Some zero_Time"
    by simp
  have "reachable ?ds \<lparr>certmon = fst (NewCertMon ?ds), certExpirations = Map.empty, events = []\<rparr>"
    by (rule reachable.start)
  then have keys: "dom (expirations (certmon
        \<lparr>certmon = fst (NewCertMon ?ds), certExpirations = Map.empty, events = []\<rparr>)) = set ?ds"
    using inv by (elim conjE) blast
  have "distinct ?ds \<longrightarrow> (\<forall>k \<in> set ?ds. length (writers (snd (NewCertMon ?ds)) k) = 1)"
    using inv by (elim conjE)
  moreover have "distinct ?ds" and "''a.example'' \<in> set ?ds"
    by simp_all
  ultimately have one: "length (writers (snd (NewCertMon ?ds)) ''a.example'') = 1"
    by blast
  from goroutines entry keys one show ?thesis
    by (intro conjI)
qed

subsection \<open>The order of the status page\<close>

lemma HandleStatus_less_key:
  "HandleStatus_less cm a b \<longleftrightarrow> (expirations_index cm a, a) < (expirations_index cm b, b)"
  by (auto simp: HandleStatus_less_def Let_def Before_def)

lemma sort_insert_insort_key:
  assumes "\<And>a b. lt a b \<longleftrightarrow> f a < f b"
  shows "sort_insert lt x ys = insort_key f x ys"
  by (induction ys) (auto simp: assms)

lemma sort_Slice_sort_key:
  assumes "\<And>a b. lt a b \<longleftrightarrow> f a < f b"
  shows "sort_Slice lt xs = sort_key f xs"
proof -
  have "sort_insert lt = insort_key f"
    using sort_insert_insort_key [of lt f, OF assms] by (intro ext)
  then show ?thesis
    by (simp add: sort_Slice_def sort_key_def)
qed

lemma HandleStatus_domains_sort_key:
  "HandleStatus_domains cm ks = sort_key (\<lambda>d. (expirations_index cm d, d)) ks"
  unfolding HandleStatus_domains_def
  by (rule sort_Slice_sort_key) (rule HandleStatus_less_key)


lemma HandleStatus_domains_set [simp]: "set (HandleStatus_domains cm ks) = set ks"
  by (simp add: HandleStatus_domains_sort_key)

lemma HandleStatus_domains_distinct [simp]:
  "distinct (HandleStatus_domains cm ks) = distinct ks"
  by (simp add: HandleStatus_domains_sort_key)

lemma HandleStatus_domains_length [simp]: "length (HandleStatus_domains cm ks) = length ks"
  by (simp add: HandleStatus_domains_sort_key)

lemma HandleStatus_domains_strictly_sorted:
  assumes "distinct ks"
  shows "sorted_wrt (\<lambda>a b. expirations_index cm a < expirations_index cm b
            \<or> (expirations_index cm a = expirations_index cm b \<and> a < b))
           (HandleStatus_domains cm ks)"
proof -
  let ?f = "\<lambda>d. (expirations_index cm d, d)"
  let ?out = "sort_key ?f ks"
  have "sorted (map ?f ?out)"
    by (rule sorted_sort_key)
  moreover have "distinct (map ?f ?out)"
    using assms by (simp add: distinct_map inj_on_def)
  ultimately have "sorted_wrt (<) (map ?f ?out)"
    by (simp add: strict_sorted_iff)
  then have "sorted_wrt (\<lambda>a b. ?f a < ?f b) ?out"
    by (simp add: sorted_wrt_map)
  then have "sorted_wrt (\<lambda>a b. expirations_index cm a < expirations_index cm b
            \<or> (expirations_index cm a = expirations_index cm b \<and> a < b)) ?out"
    by (rule sorted_wrt_mono_rel [rotated]) auto
  then show ?thesis
    by (simp add: HandleStatus_domains_sort_key)
qed



lemma sorted_wrt_precedes:
  assumes "sorted_wrt R xs" and "a \<in> set xs" and "b \<in> set xs" and "a \<noteq> b" and "\<not> R b a"
  shows "\<exists>us vs zs. xs = us @ a # vs @ b # zs"
proof -
  from assms(2) obtain us rest where xs: "xs = us @ a # rest"
    by (auto simp: in_set_conv_decomp)
  have "b \<notin> set us"
    using assms(1,5) by (auto simp: xs sorted_wrt_append)
  then have "b \<in> set rest"
    using assms(3,4) by (auto simp: xs)
  then obtain vs zs where "rest = vs @ b # zs"
    by (auto simp: in_set_conv_decomp)
  then show ?thesis
    using xs by blast
qed


lemma example_table_keys:
  "dom (expirations (certmon example_world)) = set [''b.example'', ''a.example'', ''c.example'']"
  by (auto simp: example_world_def)

lemma example_domains:
  "HandleStatus_domains (certmon example_world) [''b.example'', ''a.example'', ''c.example'']
     = [''c.example'', ''a.example'', ''b.example'']"
  by (simp add: HandleStatus_domains_def sort_Slice_def HandleStatus_less_def example_world_def
      expirations_index_def zero_Time_def Before_def)



text \<open>
  The table of the example is one the program reaches: \<^verbatim>\<open>NewCertMon\<close> on the three
  domains, then a round for b.example and a round for a.example that succeed.
\<close>

lemma example_reachable:
  "\<exists>w. reachable [''b.example'', ''a.example'', ''c.example''] w
       \<and> certmon w = certmon example_world"
proof -
  let ?ds = "[''b.example'', ''a.example'', ''c.example'']"
  let ?w0 = "\<lparr>certmon = fst (NewCertMon ?ds), certExpirations = Map.empty, events = []\<rparr>"
  have r0: "reachable ?ds ?w0"
    by (rule reachable.start)
  have "FindExpirationTime (dial_presenting [\<lparr>NotAfter = 64029052800\<rparr>]) ''b.example''
        = Inr (64029052800, None)"
    by (simp add: FindExpirationTime_def dial_presenting_def)
  from monitor_cycle_result [OF this, of ?w0]
  obtain w1 where c1: "monitor_cycle (dial_presenting [\<lparr>NotAfter = 64029052800\<rparr>]) ''b.example'' ?w0
        = Inr w1"
    and t1: "expirations (certmon w1)
        = (expirations (fst (NewCertMon ?ds)))(''b.example'' \<mapsto> 64029052800)"
    by simp
  have r1: "reachable ?ds w1"
    using r0 _ c1 by (rule reachable.cycle) (simp add: NewCertMon_result)
  have "FindExpirationTime (dial_presenting three_certificates) ''a.example''
        = Inr (63884332800, None)"
    by (simp add: FindExpirationTime_def dial_presenting_def three_certificates_def Before_def)
  from monitor_cycle_result [OF this, of w1]
  obtain w2 where c2: "monitor_cycle (dial_presenting three_certificates) ''a.example'' w1 = Inr w2"
    and t2: "expirations (certmon w2) = (expirations (certmon w1))(''a.example'' \<mapsto> 63884332800)"
    by simp
  have r2: "reachable ?ds w2"
    using r1 _ c2 by (rule reachable.cycle) (simp add: NewCertMon_result)
  have "expirations (certmon w2) = expirations (certmon example_world)"
    by (rule ext) (simp add: t2 t1 NewCertMon_result example_world_def)
  then have "certmon w2 = certmon example_world"
    by simp
  with r2 show ?thesis
    by blast
qed

lemma Format_RFC3339_zero: "Format_RFC3339 zero_Time = ''0001-01-01T00:00:00Z''"
  by code_simp

lemma example_rows:
  "map (\<lambda>d. status_row d (expirations_index (certmon example_world) d))
     [''c.example'', ''a.example'', ''b.example'']
   = [''<tr><td>c.example</td><td>0001-01-01T00:00:00Z</td></tr>\<newline>'',
      ''<tr><td>a.example</td><td>2025-06-01T00:00:00Z</td></tr>\<newline>'',
      ''<tr><td>b.example</td><td>2030-01-01T00:00:00Z</td></tr>\<newline>'']"
  by code_simp

lemma example_events:
  "events (HandleStatus [''b.example'', ''a.example'', ''c.example''] example_world)
   = [Lock, Write status_header,
      Write ''<tr><td>c.example</td><td>0001-01-01T00:00:00Z</td></tr>\<newline>'',
      Write ''<tr><td>a.example</td><td>2025-06-01T00:00:00Z</td></tr>\<newline>'',
      Write ''<tr><td>b.example</td><td>2030-01-01T00:00:00Z</td></tr>\<newline>'',
      Write status_footer, Unlock]"
proof -
  have "events example_world = []"
    by (simp add: example_world_def)
  then show ?thesis
    using example_rows by (simp add: HandleStatus_events example_domains)
qed

text \<open>
  C5 as stated fails: c.example has the zero time of a domain never probed with success,
  and the page served for the table of the example nowhere says ``unknown''; the row of
  c.example shows the zero time as a date of the year 1.
\<close>

theorem HandleStatus_unknown_marker_counterexample:
  "expirations (certmon example_world) ''c.example'' = Some zero_Time
   \<and> \<not> sublist ''unknown''
         (written (events (HandleStatus [''b.example'', ''a.example'', ''c.example'']
            example_world)))
   \<and> Write ''<tr><td>c.example</td><td>0001-01-01T00:00:00Z</td></tr>\<newline>''
         \<in> set (events (HandleStatus [''b.example'', ''a.example'', ''c.example'']
              example_world))"
proof -
  have "\<not> sublist ''unknown''
         (written (events (HandleStatus [''b.example'', ''a.example'', ''c.example'']
            example_world)))"
    unfolding example_events by code_simp
  then show ?thesis
    by (simp add: example_events) (simp add: example_world_def)
qed

text \<open>
  C5, amended: a configured domain whose entry is still the zero time appears on the
  status page in a row that shows the zero time like any other time, as
  0001-01-01T00:00:00Z; the page has no marker of its own for it. Such a domain stands
  before every domain whose expiration is later than the zero time, and domains with the
  zero time are among themselves in ascending order of their names. For the table
  b.example = 2030-01-01T00:00:00Z, a.example = 2025-06-01T00:00:00Z and c.example never
  probed, the rows are those of c.example, a.example and b.example, in this order.
\<close>

theorem HandleStatus_zero_time_first:
  assumes "distinct ks" and "set ks = dom (expirations (certmon w))"
    and "expirations (certmon w) d = Some zero_Time"
  shows "Write (''<tr><td>'' @ d @ ''</td><td>0001-01-01T00:00:00Z</td></tr>\<newline>'')
           \<in> set (events (HandleStatus ks w))
    \<and> (\<forall>d' t. expirations (certmon w) d' = Some t \<and> zero_Time < t \<longrightarrow>
          (\<exists>us vs zs. HandleStatus_domains (certmon w) ks = us @ d # vs @ d' # zs))
    \<and> (\<forall>d'. expirations (certmon w) d' = Some zero_Time \<and> d < d' \<longrightarrow>
          (\<exists>us vs zs. HandleStatus_domains (certmon w) ks = us @ d # vs @ d' # zs))
    \<and> events (HandleStatus [''b.example'', ''a.example'', ''c.example''] example_world)
        = [Lock, Write status_header,
           Write ''<tr><td>c.example</td><td>0001-01-01T00:00:00Z</td></tr>\<newline>'',
           Write ''<tr><td>a.example</td><td>2025-06-01T00:00:00Z</td></tr>\<newline>'',
           Write ''<tr><td>b.example</td><td>2030-01-01T00:00:00Z</td></tr>\<newline>'',
           Write status_footer, Unlock]"
proof -
  let ?cm = "certmon w"
  let ?out = "HandleStatus_domains ?cm ks"
  let ?R = "\<lambda>a b. expirations_index ?cm a < expirations_index ?cm b
          \<or> (expirations_index ?cm a = expirations_index ?cm b \<and> a < b)"
  have sorted: "sorted_wrt ?R ?out"
    using assms(1) by (rule HandleStatus_domains_strictly_sorted)
  have d_zero: "expirations_index ?cm d = zero_Time"
    using assms(3) by (simp add: expirations_index_def)
  have d_in: "d \<in> set ?out"
    using assms(2,3) by auto
  have "Write (status_row d (expirations_index ?cm d)) \<in> set (events (HandleStatus ks w))"
    using d_in by (simp add: HandleStatus_events)
  moreover have "status_row d (expirations_index ?cm d)
        = ''<tr><td>'' @ d @ ''</td><td>0001-01-01T00:00:00Z</td></tr>\<newline>''"
    by (simp add: status_row_def d_zero Format_RFC3339_zero)
  ultimately have row:
    "Write (''<tr><td>'' @ d @ ''</td><td>0001-01-01T00:00:00Z</td></tr>\<newline>'')
           \<in> set (events (HandleStatus ks w))"
    by simp
  have known: "\<exists>us vs zs. ?out = us @ d # vs @ d' # zs"
    if "expirations ?cm d' = Some t \<and> zero_Time < t" for d' t
  proof -
    have "expirations_index ?cm d' = t"
      using that by (simp add: expirations_index_def)
    moreover have "d' \<in> set ?out"
      using assms(2) that by auto
    ultimately show ?thesis
      using that d_zero d_in by (intro sorted_wrt_precedes [OF sorted]) auto
  qed
  have unknown: "\<exists>us vs zs. ?out = us @ d # vs @ d' # zs"
    if "expirations ?cm d' = Some zero_Time \<and> d < d'" for d'
  proof -
    have "expirations_index ?cm d' = zero_Time"
      using that by (simp add: expirations_index_def)
    moreover have "d' \<in> set ?out"
      using assms(2) that by auto
    ultimately show ?thesis
      using that d_zero d_in by (intro sorted_wrt_precedes [OF sorted]) auto
  qed
  from row known unknown example_events show ?thesis
    by blast
qed

theorem HandleStatus_zero_time_first_witness:
  "expirations (certmon example_world) ''c.example'' = Some zero_Time
   \<and> expirations (certmon example_world) ''a.example'' = Some 63884332800
   \<and> zero_Time < 63884332800
   \<and> Write ''<tr><td>c.example</td><td>0001-01-01T00:00:00Z</td></tr>\<newline>''
        \<in> set (events (HandleStatus [''a.example'', ''c.example'', ''b.example''] example_world))
   \<and> (\<exists>us vs zs. HandleStatus_domains (certmon example_world)
          [''a.example'', ''c.example'', ''b.example'']
        = us @ ''c.example'' # vs @ ''a.example'' # zs)"
proof -
  let ?ks = "[''a.example'', ''c.example'', ''b.example'']"
  have d: "distinct ?ks"
    by simp
  have k: "set ?ks = dom (expirations (certmon example_world))"
    by (auto simp: example_table_keys)
  have c: "expirations (certmon example_world) ''c.example'' = Some zero_Time"
    by (simp add: example_world_def)
  have a: "expirations (certmon example_world) ''a.example'' = Some 63884332800"
    by (simp add: example_world_def)
  have z: "zero_Time < 63884332800"
    by (simp add: zero_Time_def)
  note inst = HandleStatus_zero_time_first [OF d k c]
  have row: "Write (''<tr><td>'' @ ''c.example'' @ ''</td><td>0001-01-01T00:00:00Z</td></tr>\<newline>'')
        \<in> set (events (HandleStatus ?ks example_world))"
    using inst by (elim conjE)
  have "\<forall>d' t. expirations (certmon example_world) d' = Some t \<and> zero_Time < t \<longrightarrow>
          (\<exists>us vs zs. HandleStatus_domains (certmon example_world) ?ks
             = us @ ''c.example'' # vs @ d' # zs)"
    using inst by (elim conjE)
  with a z have "\<exists>us vs zs. HandleStatus_domains (certmon example_world) ?ks
        = us @ ''c.example'' # vs @ ''a.example'' # zs"
    by blast
  with c a z row show ?thesis
    by simp
qed

subsection \<open>The mutex and the page\<close>

lemma held_at_writes_Writes:
  "held_at_writes held (map Write texts @ es) = replicate (length texts) held @ held_at_writes held es"
  by (induction texts) simp_all

text \<open>
  C6 as stated fails: on the table of the example the page is written in five pieces,
  and the mutex is held at each of them.
\<close>

theorem HandleStatus_lock_counterexample:
  "held_at_writes False
     (events (HandleStatus [''b.example'', ''a.example'', ''c.example''] example_world))
   = [True, True, True, True, True]"
  by (simp add: example_events)

text \<open>
  C6, amended: \<^verbatim>\<open>HandleStatus\<close> takes the mutex first and releases it only when it
  returns, by the deferred \<^verbatim>\<open>Unlock\<close>. Between the two it writes the header, one row
  for each domain and the footer, so the mutex is held at every write of the page and
  is not held by the handler after it.
\<close>

theorem HandleStatus_writes_under_lock:
  "\<exists>texts. events (HandleStatus ks w) = events w @ Lock # map Write texts @ [Unlock]
      \<and> length texts = length ks + 2
      \<and> held_at_writes held (Lock # map Write texts @ [Unlock])
          = replicate (length ks + 2) True"
proof -
  let ?texts = "status_header
      # map (\<lambda>d. status_row d (expirations_index (certmon w) d))
          (HandleStatus_domains (certmon w) ks)
      @ [status_footer]"
  have "events (HandleStatus ks w) = events w @ Lock # map Write ?texts @ [Unlock]"
    by (simp add: HandleStatus_events comp_def)
  moreover have "length ?texts = length ks + 2"
    by simp
  moreover have "held_at_writes held (Lock # map Write ?texts @ [Unlock])
          = replicate (length ?texts) True"
    unfolding held_at_writes.simps held_at_writes_Writes by simp
  ultimately show ?thesis
    by (metis (no_types, lifting))
qed



end
